theory Spec2Isabelle
  imports Main "HOL-Library.Word"
begin

unbundle bit_operations_syntax

section \<open>The netlink process connector of package psnotify\<close>

text \<open>
  A shallow embedding of the Linux listener of package \<open>psnotify\<close>: the constants and
  wire structures, \<open>Watcher.isWatching\<close>, \<open>Watcher.handleEvent\<close> and
  \<open>Watcher.readEvents\<close>.

  Conventions of the model:
  \<^item> \<open>uint16\<close>, \<open>uint32\<close> and \<open>uint64\<close> are words of that width; a byte is an \<open>8 word\<close>.
  \<^item> Go's \<open>int\<close> is the 64-bit integer of linux/amd64. The only integers of that type
    are process ids: map keys given by the caller and \<open>int(x)\<close> of a \<open>uint32\<close> field,
    which is value preserving at 64 bits. No arithmetic is done on them, so they are
    HOL integers and \<open>int(x)\<close> is \<open>uint x\<close>.
  \<^item> \<open>byteOrder = sys.GetEndian()\<close> is the host's native order; it is a parameter.
  \<^item> A channel is the list of the values sent on it so far, oldest first; a send appends.
    (The receivers of the channels are outside the listener.)
  \<^item> \<open>watchesMutex.Lock()\<close> and \<open>Unlock()\<close> have no effect on the values computed by one
    thread: \<open>isWatching\<close>, \<open>handleEvent\<close> and \<open>readEvents\<close> below are the sequential
    behaviour of the calling thread. Which accesses of the table that thread makes
    with the mutex held is the subject of a separate section.
\<close>

type_synonym byte = "8 word"
type_synonym uint16 = "16 word"
type_synonym uint32 = "32 word"
type_synonym uint64 = "64 word"

subsection \<open>Constants\<close>

definition PROC_EVENT_FORK :: uint32 where "PROC_EVENT_FORK = 0x00000001"
definition PROC_EVENT_EXEC :: uint32 where "PROC_EVENT_EXEC = 0x00000002"
definition PROC_EVENT_EXIT :: uint32 where "PROC_EVENT_EXIT = 0x80000000"
definition PROC_EVENT_UID :: uint32 where "PROC_EVENT_UID = 0x00000004"
definition PROC_EVENT_GID :: uint32 where "PROC_EVENT_GID = 0x00000040"
definition PROC_EVENT_SID :: uint32 where "PROC_EVENT_SID = 0x00000080"
definition PROC_EVENT_PTRACE :: uint32 where "PROC_EVENT_PTRACE = 0x00000100"
definition PROC_EVENT_COMM :: uint32 where "PROC_EVENT_COMM = 0x00000200"
definition PROC_EVENT_COREDUMP :: uint32 where "PROC_EVENT_COREDUMP = 0x40000000"

definition PROC_EVENT_ALL :: uint32 where
  "PROC_EVENT_ALL = PROC_EVENT_FORK OR PROC_EVENT_EXEC OR PROC_EVENT_EXIT OR
     PROC_EVENT_GID OR PROC_EVENT_SID OR PROC_EVENT_UID"

lemmas PROC_EVENT_defs =
  PROC_EVENT_FORK_def PROC_EVENT_EXEC_def PROC_EVENT_EXIT_def PROC_EVENT_UID_def
  PROC_EVENT_GID_def PROC_EVENT_SID_def PROC_EVENT_PTRACE_def PROC_EVENT_COMM_def
  PROC_EVENT_COREDUMP_def

text \<open>\<open>syscall.NLMSG_HDRLEN\<close>, \<open>syscall.NLMSG_DONE\<close> and \<open>syscall.EINVAL\<close> of package syscall.
  \<open>Errno n\<close> stands for any other error that \<open>syscall.Recvfrom\<close> returns.\<close>

definition NLMSG_HDRLEN :: nat where "NLMSG_HDRLEN = 16"
definition NLMSG_DONE :: uint16 where "NLMSG_DONE = 0x3"

datatype Errno = EINVAL | Errno nat

subsection \<open>Emitted events and the watcher\<close>

text \<open>
  Modelled from the spec: the event types, the \<open>watch\<close> entry and the \<open>Watcher\<close> structure
  are declared in the package's platform-independent file, which is not among the
  sources. The spec's data model has the watch entry (``process id or wildcard sentinel
  to interest bitmask''), the per-kind event queues and the error queue; the names of
  the fields are those the listener uses (\<open>w.watches[pid]\<close>, \<open>watch.flags\<close>, \<open>w.Fork\<close>,
  \<open>&ProcEventFork{ParentPid: ppid, ChildPid: pid}\<close>, ...). \<open>w.Uid\<close> and \<open>w.Sid\<close> carry
  \<open>*ProcEventExit\<close> values, as the sends in \<open>handleEvent\<close> show.
\<close>

datatype ProcEventFork = ProcEventFork (ParentPid: int) (ChildPid: int)
datatype ProcEventExec = ProcEventExec (Pid: int)
datatype ProcEventExit = ProcEventExit (Pid: int)

record watch =
  flags :: uint32

record Watcher =
  watches :: "int \<rightharpoonup> watch"
  Fork :: "ProcEventFork list"
  Exec :: "ProcEventExec list"
  Exit :: "ProcEventExit list"
  Uid :: "ProcEventExit list"
  Sid :: "ProcEventExit list"
  Error :: "Errno list"

subsection \<open>Wire structures\<close>

record cbId =
  Idx :: uint32
  Val :: uint32

record cnMsg =
  Id :: cbId
  Seq :: uint32
  Ack :: uint32
  Len :: uint16
  Flags :: uint16

record procEventHeader =
  What :: uint32
  Cpu :: uint32
  Timestamp :: uint64

record forkProcEvent =
  ParentPid :: uint32
  ParentTgid :: uint32
  ChildPid :: uint32
  ChildTgid :: uint32

record execProcEvent =
  ProcessPid :: uint32
  ProcessTgid :: uint32

record exitProcEvent =
  ProcessPid :: uint32
  ProcessTgid :: uint32
  ExitCode :: uint32
  ExitSignal :: uint32

record idProcEvent =
  ProcessPid :: uint32
  ProcessTgid :: uint32
  Rid :: uint32
  eId :: uint32

record sidProcEvent =
  ProcessPid :: uint32
  ProcessTgid :: uint32

text \<open>The zero values that \<open>&cnMsg{}\<close>, \<open>&procEventHeader{}\<close>, ... allocate.\<close>

definition zero_cnMsg :: cnMsg where
  "zero_cnMsg = \<lparr>Id = \<lparr>Idx = 0, Val = 0\<rparr>, Seq = 0, Ack = 0, Len = 0, Flags = 0\<rparr>"

definition zero_procEventHeader :: procEventHeader where
  "zero_procEventHeader = \<lparr>What = 0, Cpu = 0, Timestamp = 0\<rparr>"

definition zero_forkProcEvent :: forkProcEvent where
  "zero_forkProcEvent = \<lparr>ParentPid = 0, ParentTgid = 0, ChildPid = 0, ChildTgid = 0\<rparr>"

definition zero_execProcEvent :: execProcEvent where
  "zero_execProcEvent = \<lparr>execProcEvent.ProcessPid = 0, execProcEvent.ProcessTgid = 0\<rparr>"

definition zero_exitProcEvent :: exitProcEvent where
  "zero_exitProcEvent =
     \<lparr>exitProcEvent.ProcessPid = 0, exitProcEvent.ProcessTgid = 0, ExitCode = 0, ExitSignal = 0\<rparr>"

definition zero_idProcEvent :: idProcEvent where
  "zero_idProcEvent =
     \<lparr>idProcEvent.ProcessPid = 0, idProcEvent.ProcessTgid = 0, Rid = 0, eId = 0\<rparr>"

definition zero_sidProcEvent :: sidProcEvent where
  "zero_sidProcEvent = \<lparr>sidProcEvent.ProcessPid = 0, sidProcEvent.ProcessTgid = 0\<rparr>"

subsection \<open>Decoding with \<open>encoding/binary\<close>\<close>

text \<open>
  \<open>binary.Read(buf, byteOrder, dst)\<close> on a \<open>bytes.Buffer\<close>: it needs \<open>binary.Size(dst)\<close>
  bytes and reads them with \<open>io.ReadFull\<close>. When the buffer holds fewer, \<open>ReadFull\<close>
  consumes what is left and \<open>Read\<close> returns \<open>io.EOF\<close> (empty buffer) or
  \<open>io.ErrUnexpectedEOF\<close> without touching \<open>dst\<close>; otherwise the fields of \<open>dst\<close> are
  decoded in declaration order, without padding, in the given byte order.
\<close>

datatype ByteOrder = LittleEndian | BigEndian

datatype io_error = EOF | ErrUnexpectedEOF

text \<open>\<open>binary.LittleEndian.Uint32(b)\<close> is \<open>b[0] | b[1]<<8 | b[2]<<16 | b[3]<<24\<close>, and
  \<open>binary.BigEndian\<close> takes the bytes in the opposite order; likewise at 16 and 64 bits.\<close>

fun le_word :: "byte list \<Rightarrow> 'a::len word" where
  "le_word [] = 0"
| "le_word (b # bs) = ucast b OR push_bit 8 (le_word bs)"

definition order_word :: "ByteOrder \<Rightarrow> byte list \<Rightarrow> 'a::len word" where
  "order_word byteOrder bs =
     (case byteOrder of LittleEndian \<Rightarrow> le_word bs | BigEndian \<Rightarrow> le_word (rev bs))"

definition Uint16 :: "ByteOrder \<Rightarrow> byte list \<Rightarrow> uint16" where
  "Uint16 byteOrder b = order_word byteOrder (take 2 b)"

definition Uint32 :: "ByteOrder \<Rightarrow> byte list \<Rightarrow> uint32" where
  "Uint32 byteOrder b = order_word byteOrder (take 4 b)"

definition Uint64 :: "ByteOrder \<Rightarrow> byte list \<Rightarrow> uint64" where
  "Uint64 byteOrder b = order_word byteOrder (take 8 b)"

definition binary_Read ::
  "nat \<Rightarrow> (byte list \<Rightarrow> 'a) \<Rightarrow> byte list \<Rightarrow> 'a \<Rightarrow> io_error option \<times> 'a \<times> byte list" where
  "binary_Read n decode buf dst =
     (if n \<le> length buf then (None, decode (take n buf), drop n buf)
      else (Some (if buf = [] then EOF else ErrUnexpectedEOF), dst, []))"

text \<open>\<open>binary.Size\<close> of each structure, the sum of the sizes of its fields.\<close>

definition size_cnMsg :: nat where "size_cnMsg = 20"
definition size_procEventHeader :: nat where "size_procEventHeader = 16"
definition size_forkProcEvent :: nat where "size_forkProcEvent = 16"
definition size_execProcEvent :: nat where "size_execProcEvent = 8"
definition size_exitProcEvent :: nat where "size_exitProcEvent = 16"
definition size_idProcEvent :: nat where "size_idProcEvent = 16"
definition size_sidProcEvent :: nat where "size_sidProcEvent = 8"

lemmas size_defs =
  size_cnMsg_def size_procEventHeader_def size_forkProcEvent_def size_execProcEvent_def
  size_exitProcEvent_def size_idProcEvent_def size_sidProcEvent_def

definition decode_cnMsg :: "ByteOrder \<Rightarrow> byte list \<Rightarrow> cnMsg" where
  "decode_cnMsg byteOrder d =
     \<lparr>Id = \<lparr>Idx = Uint32 byteOrder d, Val = Uint32 byteOrder (drop 4 d)\<rparr>,
      Seq = Uint32 byteOrder (drop 8 d),
      Ack = Uint32 byteOrder (drop 12 d),
      Len = Uint16 byteOrder (drop 16 d),
      Flags = Uint16 byteOrder (drop 18 d)\<rparr>"

definition decode_procEventHeader :: "ByteOrder \<Rightarrow> byte list \<Rightarrow> procEventHeader" where
  "decode_procEventHeader byteOrder d =
     \<lparr>What = Uint32 byteOrder d,
      Cpu = Uint32 byteOrder (drop 4 d),
      Timestamp = Uint64 byteOrder (drop 8 d)\<rparr>"

definition decode_forkProcEvent :: "ByteOrder \<Rightarrow> byte list \<Rightarrow> forkProcEvent" where
  "decode_forkProcEvent byteOrder d =
     \<lparr>ParentPid = Uint32 byteOrder d,
      ParentTgid = Uint32 byteOrder (drop 4 d),
      ChildPid = Uint32 byteOrder (drop 8 d),
      ChildTgid = Uint32 byteOrder (drop 12 d)\<rparr>"

definition decode_execProcEvent :: "ByteOrder \<Rightarrow> byte list \<Rightarrow> execProcEvent" where
  "decode_execProcEvent byteOrder d =
     \<lparr>execProcEvent.ProcessPid = Uint32 byteOrder d,
      execProcEvent.ProcessTgid = Uint32 byteOrder (drop 4 d)\<rparr>"

definition decode_exitProcEvent :: "ByteOrder \<Rightarrow> byte list \<Rightarrow> exitProcEvent" where
  "decode_exitProcEvent byteOrder d =
     \<lparr>exitProcEvent.ProcessPid = Uint32 byteOrder d,
      exitProcEvent.ProcessTgid = Uint32 byteOrder (drop 4 d),
      ExitCode = Uint32 byteOrder (drop 8 d),
      ExitSignal = Uint32 byteOrder (drop 12 d)\<rparr>"

definition decode_sidProcEvent :: "ByteOrder \<Rightarrow> byte list \<Rightarrow> sidProcEvent" where
  "decode_sidProcEvent byteOrder d =
     \<lparr>sidProcEvent.ProcessPid = Uint32 byteOrder d,
      sidProcEvent.ProcessTgid = Uint32 byteOrder (drop 4 d)\<rparr>"

text \<open>
  \<open>idProcEvent\<close> has the unexported field \<open>eId\<close>. Package \<open>encoding/binary\<close> documents:
  ``When reading into a struct, all non-blank fields must be exported or Read may
  panic.'' Its decoder sets every field whose name is not \<open>_\<close> through reflection, and
  \<open>reflect.Value.SetUint\<close> panics on a value obtained from an unexported field. The
  size check comes first: a buffer with fewer than \<open>binary.Size(event) = 16\<close> bytes makes
  \<open>Read\<close> return the error as for every other structure, and a buffer with the 16
  bytes makes it panic when it reaches \<open>eId\<close>.
\<close>

datatype panic = PanicUnexportedField

definition binary_Read_idProcEvent ::
  "ByteOrder \<Rightarrow> byte list \<Rightarrow> idProcEvent \<Rightarrow> panic + io_error option \<times> idProcEvent \<times> byte list" where
  "binary_Read_idProcEvent byteOrder buf dst =
     (if size_idProcEvent \<le> length buf then Inl PanicUnexportedField
      else Inr (Some (if buf = [] then EOF else ErrUnexpectedEOF), dst, []))"

subsection \<open>The watch table\<close>

text \<open>\<open>Watcher.isWatching\<close>: the entry of \<open>pid\<close> decides when there is one, else the entry
  of \<open>-1\<close> (any process), else \<open>false\<close>.\<close>

definition isWatching :: "Watcher \<Rightarrow> int \<Rightarrow> uint32 \<Rightarrow> bool" where
  "isWatching w pid event =
     (case watches w pid of
        Some watch \<Rightarrow> (flags watch AND event) = event
      | None \<Rightarrow>
          (case watches w (- 1) of
             Some watch \<Rightarrow> (flags watch AND event) = event
           | None \<Rightarrow> False))"

text \<open>
  Modelled from the spec: \<open>Watcher.Watch\<close> and \<open>Watcher.RemoveWatch\<close> are called by
  \<open>handleEvent\<close> and defined in the package's platform-independent file, which is not
  among the sources. The spec's Watch Table gives them: ``Subscribe(pid, mask): merges
  mask into the existing interest bitmask for pid (or inserts a new entry)'' and
  ``Unsubscribe(pid): removes the entry entirely''. \<open>handleEvent\<close> ignores the error
  either returns.
\<close>

definition Watch :: "Watcher \<Rightarrow> int \<Rightarrow> uint32 \<Rightarrow> Watcher" where
  "Watch w pid fl =
     (case watches w pid of
        Some watchEntry \<Rightarrow> w\<lparr>watches := (watches w)(pid \<mapsto> watchEntry\<lparr>flags := flags watchEntry OR fl\<rparr>)\<rparr>
      | None \<Rightarrow> w\<lparr>watches := (watches w)(pid \<mapsto> \<lparr>flags = fl\<rparr>)\<rparr>)"

definition RemoveWatch :: "Watcher \<Rightarrow> int \<Rightarrow> Watcher" where
  "RemoveWatch w pid = w\<lparr>watches := (watches w)(pid := None)\<rparr>"

subsection \<open>The dispatcher\<close>

text \<open>
  \<open>Watcher.handleEvent\<close>. The errors of the \<open>binary.Read\<close> calls are dropped, as in the
  source; \<open>int(event.X)\<close> is \<open>uint\<close>. The result is \<open>Inl\<close> when the call panics.
\<close>

definition handleEvent :: "ByteOrder \<Rightarrow> Watcher \<Rightarrow> byte list \<Rightarrow> panic + Watcher" where
  "handleEvent byteOrder w data =
     (let buf = data;
          (err, msg, buf) = binary_Read size_cnMsg (decode_cnMsg byteOrder) buf zero_cnMsg;
          (err, hdr, buf) =
            binary_Read size_procEventHeader (decode_procEventHeader byteOrder) buf
              zero_procEventHeader
      in
        if What hdr = PROC_EVENT_FORK then
          (let (err, event, buf) =
                 binary_Read size_forkProcEvent (decode_forkProcEvent byteOrder) buf
                   zero_forkProcEvent;
               ppid = uint (ParentTgid event);
               pid = uint (ChildTgid event);
               w = (if isWatching w ppid PROC_EVENT_EXEC then
                      (case watches w ppid of
                         None \<Rightarrow>
                           (case watches w (- 1) of
                              Some watch \<Rightarrow> Watch w pid (flags watch)
                            | None \<Rightarrow> w)
                       | Some watch \<Rightarrow> Watch w pid (flags watch))
                    else w);
               w = (if isWatching w ppid PROC_EVENT_FORK
                    then w\<lparr>Fork := Fork w @ [ProcEventFork ppid pid]\<rparr> else w)
           in Inr w)
        else if What hdr = PROC_EVENT_EXEC then
          (let (err, event, buf) =
                 binary_Read size_execProcEvent (decode_execProcEvent byteOrder) buf
                   zero_execProcEvent;
               pid = uint (execProcEvent.ProcessTgid event)
           in if isWatching w pid PROC_EVENT_EXEC
              then Inr (w\<lparr>Exec := Exec w @ [ProcEventExec pid]\<rparr>) else Inr w)
        else if What hdr = PROC_EVENT_EXIT then
          (let (err, event, buf) =
                 binary_Read size_exitProcEvent (decode_exitProcEvent byteOrder) buf
                   zero_exitProcEvent;
               pid = uint (exitProcEvent.ProcessTgid event)
           in if isWatching w pid PROC_EVENT_EXIT
              then (let w = RemoveWatch w pid in Inr (w\<lparr>Exit := Exit w @ [ProcEventExit pid]\<rparr>))
              else Inr w)
        else if What hdr = PROC_EVENT_UID \<or> What hdr = PROC_EVENT_GID then
          (case binary_Read_idProcEvent byteOrder buf zero_idProcEvent of
             Inl p \<Rightarrow> Inl p
           | Inr (err, event, buf) \<Rightarrow>
               (let pid = uint (idProcEvent.ProcessPid event)
                in if isWatching w pid PROC_EVENT_UID
                   then (let w = RemoveWatch w pid in Inr (w\<lparr>Uid := Uid w @ [ProcEventExit pid]\<rparr>))
                   else Inr w))
        else if What hdr = PROC_EVENT_SID then
          (let (err, event, buf) =
                 binary_Read size_sidProcEvent (decode_sidProcEvent byteOrder) buf
                   zero_sidProcEvent;
               pid = uint (sidProcEvent.ProcessPid event)
           in if isWatching w pid PROC_EVENT_SID
              then (let w = RemoveWatch w pid in Inr (w\<lparr>Sid := Sid w @ [ProcEventExit pid]\<rparr>))
              else Inr w)
        else Inr w)"

subsection \<open>The read loop\<close>

text \<open>
  \<open>syscall.NlMsghdr\<close>, \<open>syscall.NetlinkMessage\<close> and \<open>syscall.ParseNetlinkMessage\<close> of Go's
  package syscall. The header is read in place, in the host's byte order. A message
  whose length field is below the header length, or whose aligned length exceeds what
  is left, makes the whole call return \<open>(nil, EINVAL)\<close>.
\<close>

record NlMsghdr =
  Len :: uint32
  Type :: uint16
  Flags :: uint16
  Seq :: uint32
  Pid :: uint32

record NetlinkMessage =
  Header :: NlMsghdr
  Data :: "byte list"

definition decode_NlMsghdr :: "ByteOrder \<Rightarrow> byte list \<Rightarrow> NlMsghdr" where
  "decode_NlMsghdr byteOrder d =
     \<lparr>NlMsghdr.Len = Uint32 byteOrder d,
      Type = Uint16 byteOrder (drop 4 d),
      NlMsghdr.Flags = Uint16 byteOrder (drop 6 d),
      NlMsghdr.Seq = Uint32 byteOrder (drop 8 d),
      NlMsghdr.Pid = Uint32 byteOrder (drop 12 d)\<rparr>"

definition nlmAlignOf :: "int \<Rightarrow> int" where
  "nlmAlignOf msglen = (msglen + 3) AND NOT 3"

lemma and_not_mask_2_int: "(k::int) AND NOT (mask 2) = push_bit 2 (drop_bit 2 k)"
proof (rule bit_eqI)
  fix n
  have "2 \<le> n \<Longrightarrow> Suc (Suc (n - 2)) = n" by simp
  then show "bit (k AND NOT (mask 2)) n = bit (push_bit 2 (drop_bit 2 k)) n"
    by (auto simp add: bit_simps)
qed

lemma nlmAlignOf_eq: "nlmAlignOf msglen = 4 * ((msglen + 3) div 4)"
  using and_not_mask_2_int [of "msglen + 3"]
  by (simp add: nlmAlignOf_def push_bit_eq_mult drop_bit_eq_div mask_eq_exp_minus_1)

lemma nlmAlignOf_ge: "msglen \<le> nlmAlignOf msglen"
  unfolding nlmAlignOf_eq by presburger

function ParseNetlinkMessage :: "ByteOrder \<Rightarrow> byte list \<Rightarrow> Errno + NetlinkMessage list" where
  "ParseNetlinkMessage byteOrder b =
     (if int (length b) \<ge> int NLMSG_HDRLEN then
        (let h = decode_NlMsghdr byteOrder b;
             l = nlmAlignOf (uint (NlMsghdr.Len h))
         in if uint (NlMsghdr.Len h) < int NLMSG_HDRLEN \<or> l > int (length b) then Inl EINVAL
            else
              (let m = \<lparr>Header = h,
                         Data = take (nat (uint (NlMsghdr.Len h)) - NLMSG_HDRLEN) (drop NLMSG_HDRLEN b)\<rparr>
               in case ParseNetlinkMessage byteOrder (drop (nat l) b) of
                    Inl err \<Rightarrow> Inl err
                  | Inr msgs \<Rightarrow> Inr (m # msgs)))
      else Inr [])"
  by pat_completeness auto

termination
proof (relation "measure (\<lambda>(byteOrder, b). length b)")
  show "wf (measure (\<lambda>(byteOrder, b). length b))" by simp
next
  fix byteOrder :: ByteOrder and b :: "byte list" and h l m
  assume len: "int NLMSG_HDRLEN \<le> int (length b)"
    and h: "h = decode_NlMsghdr byteOrder b"
    and l: "l = nlmAlignOf (uint (NlMsghdr.Len h))"
    and ok: "\<not> (uint (NlMsghdr.Len h) < int NLMSG_HDRLEN \<or> int (length b) < l)"
  from ok l nlmAlignOf_ge [of "uint (NlMsghdr.Len h)"] have "int NLMSG_HDRLEN \<le> l" by simp
  then have "0 < nat l" by (simp add: NLMSG_HDRLEN_def)
  moreover from len have "0 < length b" by (auto simp add: NLMSG_HDRLEN_def)
  ultimately show "((byteOrder, drop (nat l) b), (byteOrder, b)) \<in> measure (\<lambda>(byteOrder, b). length b)"
    by simp
qed

declare ParseNetlinkMessage.simps [simp del]

text \<open>
  Modelled from the spec: \<open>Watcher.isDone\<close> is defined in the package's
  platform-independent file, which is not among the sources. The spec's read loop
  gives it: ``Check termination flag; if set, exit the loop'', the flag being shared
  with the thread that shuts the listener down. What \<open>isDone\<close> and then
  \<open>syscall.Recvfrom\<close> return in one iteration is therefore an input of the loop:
  \<open>Done\<close> when \<open>isDone()\<close> is true, otherwise the error of \<open>Recvfrom\<close> or the bytes
  \<open>buf[:nr]\<close> it received.
\<close>

datatype Iteration = Done | RecvErr Errno | RecvOk "byte list"

text \<open>The inner loop of \<open>readEvents\<close> over the parsed messages.\<close>

fun handleMessages :: "ByteOrder \<Rightarrow> Watcher \<Rightarrow> NetlinkMessage list \<Rightarrow> panic + Watcher" where
  "handleMessages byteOrder w [] = Inr w"
| "handleMessages byteOrder w (m # msgs) =
     (if Type (Header m) = NLMSG_DONE then
        (case handleEvent byteOrder w (Data m) of
           Inl p \<Rightarrow> Inl p
         | Inr w' \<Rightarrow> handleMessages byteOrder w' msgs)
      else handleMessages byteOrder w msgs)"

text \<open>
  \<open>Watcher.readEvents\<close>, run on the iterations the environment provides. When they are
  used up the loop is blocked in \<open>Recvfrom\<close>, and the result is the watcher at that
  point. The error of \<open>ParseNetlinkMessage\<close> is dropped, as in the source, and
  \<open>msgs\<close> is then \<open>nil\<close>.
\<close>

fun readEvents :: "ByteOrder \<Rightarrow> Watcher \<Rightarrow> Iteration list \<Rightarrow> panic + Watcher" where
  "readEvents byteOrder w [] = Inr w"
| "readEvents byteOrder w (Done # its) = Inr w"
| "readEvents byteOrder w (RecvErr err # its) =
     readEvents byteOrder (w\<lparr>Error := Error w @ [err]\<rparr>) its"
| "readEvents byteOrder w (RecvOk b # its) =
     (if int (length b) < int NLMSG_HDRLEN then
        readEvents byteOrder (w\<lparr>Error := Error w @ [EINVAL]\<rparr>) its
      else
        (let msgs = (case ParseNetlinkMessage byteOrder b of Inl err \<Rightarrow> [] | Inr msgs \<Rightarrow> msgs)
         in case handleMessages byteOrder w msgs of
              Inl p \<Rightarrow> Inl p
            | Inr w' \<Rightarrow> readEvents byteOrder w' its))"

subsection \<open>The lock discipline of the dispatcher\<close>

text \<open>
  The operations on \<open>w.watchesMutex\<close> and on the map \<open>w.watches\<close> that the thread running
  \<open>handleEvent\<close> performs, in program order: \<open>Lock\<close>, \<open>Unlock\<close>, a read of the map at a
  key and a write of the map at a key. \<open>guarded held ops\<close> says that every read and
  write in \<open>ops\<close> happens while the thread holds the mutex, \<open>held\<close> telling whether it
  holds it at the start.
\<close>

datatype table_op = Lock | Unlock | Read int | Write int

fun guarded :: "bool \<Rightarrow> table_op list \<Rightarrow> bool" where
  "guarded held [] = True"
| "guarded held (Lock # ops) = guarded True ops"
| "guarded held (Unlock # ops) = guarded False ops"
| "guarded held (Read pid # ops) = (held \<and> guarded held ops)"
| "guarded held (Write pid # ops) = (held \<and> guarded held ops)"

text \<open>\<open>Watcher.isWatching\<close> locks on entry and unlocks, deferred, on return; in between it
  reads the entry of \<open>pid\<close> and, when there is none, the entry of \<open>-1\<close>.\<close>

definition isWatching_ops :: "Watcher \<Rightarrow> int \<Rightarrow> table_op list" where
  "isWatching_ops w pid =
     Lock # Read pid #
       (case watches w pid of
          Some watch \<Rightarrow> [Unlock]
        | None \<Rightarrow> [Read (- 1), Unlock])"

text \<open>
  Modelled from the spec: the operations of \<open>Watcher.Watch\<close> and \<open>Watcher.RemoveWatch\<close>,
  which are not among the sources. The spec has the table ``protected by a single lock
  held only for the duration of each table operation'', so each of them locks, accesses
  the entry of its pid and unlocks.
\<close>

definition Watch_ops :: "int \<Rightarrow> table_op list" where
  "Watch_ops pid = [Lock, Read pid, Write pid, Unlock]"

definition RemoveWatch_ops :: "int \<Rightarrow> table_op list" where
  "RemoveWatch_ops pid = [Lock, Write pid, Unlock]"

text \<open>
  \<open>Watcher.handleEvent\<close> again, this time for the operations it performs: the calls of
  \<open>isWatching\<close>, \<open>Watch\<close> and \<open>RemoveWatch\<close>, and the two lookups of the fork-follow code,
  \<open>w.watches[ppid]\<close> and \<open>w.watches[-1]\<close>, which are in \<open>handleEvent\<close> itself. A call that
  panics in \<open>binary.Read\<close> has not touched the table.
\<close>

definition handleEvent_ops :: "ByteOrder \<Rightarrow> Watcher \<Rightarrow> byte list \<Rightarrow> table_op list" where
  "handleEvent_ops byteOrder w data =
     (let buf = data;
          (err, msg, buf) = binary_Read size_cnMsg (decode_cnMsg byteOrder) buf zero_cnMsg;
          (err, hdr, buf) =
            binary_Read size_procEventHeader (decode_procEventHeader byteOrder) buf
              zero_procEventHeader
      in
        if What hdr = PROC_EVENT_FORK then
          (let (err, event, buf) =
                 binary_Read size_forkProcEvent (decode_forkProcEvent byteOrder) buf
                   zero_forkProcEvent;
               ppid = uint (ParentTgid event);
               pid = uint (ChildTgid event);
               follow =
                 (if isWatching w ppid PROC_EVENT_EXEC then
                    Read ppid #
                      (case watches w ppid of
                         None \<Rightarrow>
                           Read (- 1) #
                             (case watches w (- 1) of
                                Some watch \<Rightarrow> Watch_ops pid
                              | None \<Rightarrow> [])
                       | Some watch \<Rightarrow> Watch_ops pid)
                  else []);
               w1 = (if isWatching w ppid PROC_EVENT_EXEC then
                      (case watches w ppid of
                         None \<Rightarrow>
                           (case watches w (- 1) of
                              Some watch \<Rightarrow> Watch w pid (flags watch)
                            | None \<Rightarrow> w)
                       | Some watch \<Rightarrow> Watch w pid (flags watch))
                    else w)
           in isWatching_ops w ppid @ follow @ isWatching_ops w1 ppid)
        else if What hdr = PROC_EVENT_EXEC then
          (let (err, event, buf) =
                 binary_Read size_execProcEvent (decode_execProcEvent byteOrder) buf
                   zero_execProcEvent;
               pid = uint (execProcEvent.ProcessTgid event)
           in isWatching_ops w pid)
        else if What hdr = PROC_EVENT_EXIT then
          (let (err, event, buf) =
                 binary_Read size_exitProcEvent (decode_exitProcEvent byteOrder) buf
                   zero_exitProcEvent;
               pid = uint (exitProcEvent.ProcessTgid event)
           in isWatching_ops w pid @
              (if isWatching w pid PROC_EVENT_EXIT then RemoveWatch_ops pid else []))
        else if What hdr = PROC_EVENT_UID \<or> What hdr = PROC_EVENT_GID then
          (case binary_Read_idProcEvent byteOrder buf zero_idProcEvent of
             Inl p \<Rightarrow> []
           | Inr (err, event, buf) \<Rightarrow>
               (let pid = uint (idProcEvent.ProcessPid event)
                in isWatching_ops w pid @
                   (if isWatching w pid PROC_EVENT_UID then RemoveWatch_ops pid else [])))
        else if What hdr = PROC_EVENT_SID then
          (let (err, event, buf) =
                 binary_Read size_sidProcEvent (decode_sidProcEvent byteOrder) buf
                   zero_sidProcEvent;
               pid = uint (sidProcEvent.ProcessPid event)
           in isWatching_ops w pid @
              (if isWatching w pid PROC_EVENT_SID then RemoveWatch_ops pid else []))
        else [])"

section \<open>Properties\<close>

subsection \<open>The branches of \<open>handleEvent\<close>\<close>

text \<open>What \<open>handleEvent\<close> computes in each case of its switch, given what its
  \<open>binary.Read\<close> calls return.\<close>

lemma handleEvent_fork:
  assumes "binary_Read size_cnMsg (decode_cnMsg byteOrder) data zero_cnMsg = (e1, msg, buf1)"
    and "binary_Read size_procEventHeader (decode_procEventHeader byteOrder) buf1
           zero_procEventHeader = (e2, hdr, buf2)"
    and "What hdr = PROC_EVENT_FORK"
    and "binary_Read size_forkProcEvent (decode_forkProcEvent byteOrder) buf2
           zero_forkProcEvent = (e3, event, buf3)"
  shows "handleEvent byteOrder w data =
     (let ppid = uint (ParentTgid event);
          pid = uint (ChildTgid event);
          w1 = (if isWatching w ppid PROC_EVENT_EXEC then
                      (case watches w ppid of
                         None \<Rightarrow>
                           (case watches w (- 1) of
                              Some watch \<Rightarrow> Watch w pid (flags watch)
                            | None \<Rightarrow> w)
                       | Some watch \<Rightarrow> Watch w pid (flags watch))
                    else w)
      in Inr (if isWatching w1 ppid PROC_EVENT_FORK
              then w1\<lparr>Fork := Fork w1 @ [ProcEventFork ppid pid]\<rparr> else w1))"
  using assms by (simp add: handleEvent_def Let_def)

lemma handleEvent_exec:
  assumes "binary_Read size_cnMsg (decode_cnMsg byteOrder) data zero_cnMsg = (e1, msg, buf1)"
    and "binary_Read size_procEventHeader (decode_procEventHeader byteOrder) buf1
           zero_procEventHeader = (e2, hdr, buf2)"
    and "What hdr = PROC_EVENT_EXEC"
    and "binary_Read size_execProcEvent (decode_execProcEvent byteOrder) buf2
           zero_execProcEvent = (e3, event, buf3)"
  shows "handleEvent byteOrder w data =
     (let pid = uint (execProcEvent.ProcessTgid event)
      in if isWatching w pid PROC_EVENT_EXEC
         then Inr (w\<lparr>Exec := Exec w @ [ProcEventExec pid]\<rparr>) else Inr w)"
  using assms by (simp add: handleEvent_def Let_def PROC_EVENT_defs)

lemma handleEvent_exit:
  assumes "binary_Read size_cnMsg (decode_cnMsg byteOrder) data zero_cnMsg = (e1, msg, buf1)"
    and "binary_Read size_procEventHeader (decode_procEventHeader byteOrder) buf1
           zero_procEventHeader = (e2, hdr, buf2)"
    and "What hdr = PROC_EVENT_EXIT"
    and "binary_Read size_exitProcEvent (decode_exitProcEvent byteOrder) buf2
           zero_exitProcEvent = (e3, event, buf3)"
  shows "handleEvent byteOrder w data =
     (let pid = uint (exitProcEvent.ProcessTgid event)
      in if isWatching w pid PROC_EVENT_EXIT
         then Inr ((RemoveWatch w pid)\<lparr>Exit := Exit w @ [ProcEventExit pid]\<rparr>) else Inr w)"
  using assms by (simp add: handleEvent_def Let_def PROC_EVENT_defs RemoveWatch_def)

lemma handleEvent_id_panic:
  assumes "binary_Read size_cnMsg (decode_cnMsg byteOrder) data zero_cnMsg = (e1, msg, buf1)"
    and "binary_Read size_procEventHeader (decode_procEventHeader byteOrder) buf1
           zero_procEventHeader = (e2, hdr, buf2)"
    and "What hdr = PROC_EVENT_UID \<or> What hdr = PROC_EVENT_GID"
    and "size_idProcEvent \<le> length buf2"
  shows "handleEvent byteOrder w data = Inl PanicUnexportedField"
  using assms by (auto simp add: handleEvent_def Let_def PROC_EVENT_defs binary_Read_idProcEvent_def)

lemma handleEvent_sid:
  assumes "binary_Read size_cnMsg (decode_cnMsg byteOrder) data zero_cnMsg = (e1, msg, buf1)"
    and "binary_Read size_procEventHeader (decode_procEventHeader byteOrder) buf1
           zero_procEventHeader = (e2, hdr, buf2)"
    and "What hdr = PROC_EVENT_SID"
    and "binary_Read size_sidProcEvent (decode_sidProcEvent byteOrder) buf2
           zero_sidProcEvent = (e3, event, buf3)"
  shows "handleEvent byteOrder w data =
     (let pid = uint (sidProcEvent.ProcessPid event)
      in if isWatching w pid PROC_EVENT_SID
         then Inr ((RemoveWatch w pid)\<lparr>Sid := Sid w @ [ProcEventExit pid]\<rparr>) else Inr w)"
  using assms by (simp add: handleEvent_def Let_def PROC_EVENT_defs RemoveWatch_def)

lemma handleEvent_other:
  assumes "binary_Read size_cnMsg (decode_cnMsg byteOrder) data zero_cnMsg = (e1, msg, buf1)"
    and "binary_Read size_procEventHeader (decode_procEventHeader byteOrder) buf1
           zero_procEventHeader = (e2, hdr, buf2)"
    and "What hdr \<notin> {PROC_EVENT_FORK, PROC_EVENT_EXEC, PROC_EVENT_EXIT, PROC_EVENT_UID,
           PROC_EVENT_GID, PROC_EVENT_SID}"
  shows "handleEvent byteOrder w data = Inr w"
  using assms by (simp add: handleEvent_def Let_def)

lemma binary_Read_short_header:
  assumes "length data < size_cnMsg + size_procEventHeader"
    and "binary_Read size_cnMsg decode1 data dst1 = (e1, msg, buf1)"
    and "binary_Read size_procEventHeader decode2 buf1 dst2 = (e2, hdr, buf2)"
  shows "hdr = dst2"
  using assms by (auto simp add: binary_Read_def size_defs split: if_splits)

lemma handleEvent_short:
  assumes "length data < size_cnMsg + size_procEventHeader"
  shows "handleEvent byteOrder w data = Inr w"
proof -
  obtain e1 msg buf1 where r1:
    "binary_Read size_cnMsg (decode_cnMsg byteOrder) data zero_cnMsg = (e1, msg, buf1)"
    by (cases "binary_Read size_cnMsg (decode_cnMsg byteOrder) data zero_cnMsg") auto
  obtain e2 hdr buf2 where r2:
    "binary_Read size_procEventHeader (decode_procEventHeader byteOrder) buf1
       zero_procEventHeader = (e2, hdr, buf2)"
    by (cases "binary_Read size_procEventHeader (decode_procEventHeader byteOrder) buf1
       zero_procEventHeader") auto
  from binary_Read_short_header [OF assms r1 r2] have "What hdr = 0"
    by (simp add: zero_procEventHeader_def)
  then have "What hdr \<notin> {PROC_EVENT_FORK, PROC_EVENT_EXEC, PROC_EVENT_EXIT, PROC_EVENT_UID,
           PROC_EVENT_GID, PROC_EVENT_SID}"
    by (simp add: PROC_EVENT_defs)
  from handleEvent_other [OF r1 r2 this] show ?thesis .
qed

lemma handleEvent_Error:
  "handleEvent byteOrder w data = Inr w' \<Longrightarrow> Error w' = Error w"
  by (auto simp add: handleEvent_def Let_def Watch_def RemoveWatch_def split: prod.splits if_splits option.splits sum.splits)

subsection \<open>The watch table\<close>

lemma mask_subset_trans:
  fixes c m e :: uint32
  assumes "c AND m = m" and "m AND e = e"
  shows "c AND e = e"
  using assms by (metis and.assoc)

lemma Watch_entry:
  "\<exists>c. watches (Watch w pid fl) pid = Some c \<and> flags c AND fl = fl"
  by (cases "watches w pid") (simp_all add: Watch_def)

lemma Watch_other: "p \<noteq> pid \<Longrightarrow> watches (Watch w pid fl) p = watches w p"
  by (cases "watches w pid") (simp_all add: Watch_def)

lemma isWatching_cong: "watches w' = watches w \<Longrightarrow> isWatching w' pid kind = isWatching w pid kind"
  by (simp add: isWatching_def split: option.splits)

lemma isWatching_update:
  "isWatching (w\<lparr>Fork := fo\<rparr>) pid kind = isWatching w pid kind"
  "isWatching (w\<lparr>Exec := ex\<rparr>) pid kind = isWatching w pid kind"
  "isWatching (w\<lparr>Exit := ei\<rparr>) pid kind = isWatching w pid kind"
  "isWatching (w\<lparr>Uid := ui\<rparr>) pid kind = isWatching w pid kind"
  "isWatching (w\<lparr>Sid := si\<rparr>) pid kind = isWatching w pid kind"
  "isWatching (w\<lparr>Error := er\<rparr>) pid kind = isWatching w pid kind"
  by (simp_all add: isWatching_def cong: option.case_cong)

subsection \<open>The error channel\<close>

text \<open>\<open>handleEvent\<close> neither reads nor writes \<open>w.Error\<close>, so the loop run from a watcher
  with another error channel does the same, the errors it sends being appended to that
  channel instead.\<close>

lemma Watch_Error_update: "Watch (w\<lparr>Error := E\<rparr>) pid fl = (Watch w pid fl)\<lparr>Error := E\<rparr>"
  by (cases "watches w pid") (simp_all add: Watch_def)

lemma RemoveWatch_Error_update: "RemoveWatch (w\<lparr>Error := E\<rparr>) pid = (RemoveWatch w pid)\<lparr>Error := E\<rparr>"
  by (simp add: RemoveWatch_def)

lemma handleEvent_Error_update:
  "handleEvent byteOrder (w\<lparr>Error := E\<rparr>) data =
     map_sum id (\<lambda>w'. w'\<lparr>Error := E\<rparr>) (handleEvent byteOrder w data)"
  by (simp add: handleEvent_def Let_def isWatching_update Watch_Error_update
      RemoveWatch_Error_update RemoveWatch_def
      split: prod.splits option.splits sum.splits)


lemma handleMessages_Error:
  "handleMessages byteOrder w msgs = Inr w' \<Longrightarrow> Error w' = Error w"
proof (induction msgs arbitrary: w)
  case Nil
  then show ?case by simp
next
  case (Cons m msgs)
  show ?case
  proof (cases "Type (Header m) = NLMSG_DONE")
    case True
    with Cons.prems obtain w1 where h: "handleEvent byteOrder w (Data m) = Inr w1"
      and rest: "handleMessages byteOrder w1 msgs = Inr w'"
      by (auto split: sum.splits)
    from Cons.IH [OF rest] handleEvent_Error [OF h] show ?thesis by simp
  next
    case False
    with Cons.prems have "handleMessages byteOrder w msgs = Inr w'" by simp
    from Cons.IH [OF this] show ?thesis .
  qed
qed

lemma handleMessages_Error_update:
  "handleMessages byteOrder (w\<lparr>Error := E\<rparr>) msgs =
     map_sum id (\<lambda>w'. w'\<lparr>Error := E\<rparr>) (handleMessages byteOrder w msgs)"
proof (induction msgs arbitrary: w)
  case Nil
  show ?case by simp
next
  case (Cons m msgs)
  show ?case
  proof (cases "handleEvent byteOrder w (Data m)")
    case (Inl p)
    then show ?thesis by (simp add: handleEvent_Error_update Cons.IH)
  next
    case (Inr w1)
    then show ?thesis by (simp add: handleEvent_Error_update Cons.IH)
  qed
qed

lemma readEvents_Error_prefix:
  "readEvents byteOrder w its = Inr w' \<Longrightarrow> \<exists>X. Error w' = Error w @ X"
proof (induction byteOrder w its rule: readEvents.induct)
  case (1 byteOrder w)
  then show ?case by simp
next
  case (2 byteOrder w its)
  then show ?case by simp
next
  case (3 byteOrder w err its)
  from "3.prems" have "readEvents byteOrder (w\<lparr>Error := Error w @ [err]\<rparr>) its = Inr w'"
    by simp
  from "3.IH" [OF this] show ?case by auto
next
  case (4 byteOrder w b its)
  show ?case
  proof (cases "int (length b) < int NLMSG_HDRLEN")
    case True
    with "4.prems" have "readEvents byteOrder (w\<lparr>Error := Error w @ [EINVAL]\<rparr>) its = Inr w'"
      by simp
    from "4.IH"(1) [OF True this] show ?thesis by auto
  next
    case False
    define msgs where
      "msgs = (case ParseNetlinkMessage byteOrder b of Inl err \<Rightarrow> [] | Inr msgs \<Rightarrow> msgs)"
    from False "4.prems" obtain w1 where h: "handleMessages byteOrder w msgs = Inr w1"
      and rest: "readEvents byteOrder w1 its = Inr w'"
      by (auto simp add: msgs_def [symmetric] Let_def split: sum.splits)
    from "4.IH"(2) [OF False msgs_def h rest] handleMessages_Error [OF h]
    show ?thesis by simp
  qed
qed

lemma readEvents_Error_update:
  "readEvents byteOrder (w\<lparr>Error := E\<rparr>) its =
     (case readEvents byteOrder w its of
        Inl p \<Rightarrow> Inl p
      | Inr w' \<Rightarrow> Inr (w'\<lparr>Error := E @ drop (length (Error w)) (Error w')\<rparr>))"
proof (induction byteOrder w its arbitrary: E rule: readEvents.induct)
  case (1 byteOrder w)
  show ?case by simp
next
  case (2 byteOrder w its)
  show ?case by simp
next
  case (3 byteOrder w err its)
  let ?w1 = "w\<lparr>Error := Error w @ [err]\<rparr>"
  have eq: "w\<lparr>Error := E @ [err]\<rparr> = ?w1\<lparr>Error := E @ [err]\<rparr>" by simp
  show ?case
  proof (cases "readEvents byteOrder ?w1 its")
    case (Inl p)
    with "3.IH" [of "E @ [err]"] show ?thesis by simp
  next
    case (Inr w')
    from readEvents_Error_prefix [OF Inr] obtain X where "Error w' = (Error w @ [err]) @ X"
      by auto
    with Inr "3.IH" [of "E @ [err]"] show ?thesis by simp
  qed
next
  case (4 byteOrder w b its)
  show ?case
  proof (cases "int (length b) < int NLMSG_HDRLEN")
    case True
    let ?w1 = "w\<lparr>Error := Error w @ [EINVAL]\<rparr>"
    show ?thesis
    proof (cases "readEvents byteOrder ?w1 its")
      case (Inl p)
      with True "4.IH"(1) [OF True, of "E @ [EINVAL]"] show ?thesis by simp
    next
      case (Inr w')
      from readEvents_Error_prefix [OF Inr] obtain X where "Error w' = (Error w @ [EINVAL]) @ X"
        by auto
      with True Inr "4.IH"(1) [OF True, of "E @ [EINVAL]"] show ?thesis by simp
    qed
  next
    case False
    define msgs where
      "msgs = (case ParseNetlinkMessage byteOrder b of Inl err \<Rightarrow> [] | Inr msgs \<Rightarrow> msgs)"
    show ?thesis
    proof (cases "handleMessages byteOrder w msgs")
      case (Inl p)
      with False show ?thesis
        by (simp add: Let_def msgs_def [symmetric] handleMessages_Error_update)
    next
      case (Inr w1)
      from handleMessages_Error [OF Inr] have "Error w1 = Error w" .
      with False Inr "4.IH"(2) [OF False msgs_def Inr, of E] show ?thesis
        by (simp add: Let_def msgs_def [symmetric] handleMessages_Error_update
            split: sum.splits)
    qed
  qed
qed

subsection \<open>The lock discipline\<close>

text \<open>\<open>isWatching\<close> accesses the table under the lock and returns with the lock released.
  Every Fork event whose parent is watched for \<open>PROC_EVENT_EXEC\<close> is followed by the
  lookup \<open>w.watches[ppid]\<close> of \<open>handleEvent\<close>, made without the lock.\<close>

lemma isWatching_ops_guarded: "guarded held (isWatching_ops w pid)"
  by (cases "watches w pid") (simp_all add: isWatching_ops_def)

lemma isWatching_ops_then: "guarded held (isWatching_ops w pid @ ops) = guarded False ops"
  by (cases "watches w pid") (simp_all add: isWatching_ops_def)

lemma fork_follow_lookup_unguarded:
  assumes "binary_Read size_cnMsg (decode_cnMsg byteOrder) data zero_cnMsg = (e1, msg, buf1)"
    and "binary_Read size_procEventHeader (decode_procEventHeader byteOrder) buf1
           zero_procEventHeader = (e2, hdr, buf2)"
    and "What hdr = PROC_EVENT_FORK"
    and "binary_Read size_forkProcEvent (decode_forkProcEvent byteOrder) buf2
           zero_forkProcEvent = (e3, event, buf3)"
    and "isWatching w (uint (ParentTgid event)) PROC_EVENT_EXEC"
  shows "\<not> guarded held (handleEvent_ops byteOrder w data)"
  using assms by (simp add: handleEvent_ops_def Let_def isWatching_ops_then)

subsection \<open>Evaluation on concrete messages\<close>

text \<open>The equations that evaluate the decoders and \<open>handleEvent\<close> on a given message.\<close>

lemmas decode_simps =
  binary_Read_def size_defs decode_cnMsg_def decode_procEventHeader_def
  decode_forkProcEvent_def decode_execProcEvent_def decode_exitProcEvent_def
  decode_sidProcEvent_def Uint16_def Uint32_def Uint64_def order_word_def

lemmas handleEvent_eval =
  handleEvent_def decode_simps binary_Read_idProcEvent_def Let_def isWatching_def Watch_def
  RemoveWatch_def PROC_EVENT_defs zero_cnMsg_def zero_procEventHeader_def
  zero_forkProcEvent_def zero_execProcEvent_def zero_exitProcEvent_def zero_idProcEvent_def
  zero_sidProcEvent_def

subsection \<open>Claims\<close>

text \<open>
  Claim C1 (fork-follow). For a Fork event with parent \<open>ParentTgid\<close> and child \<open>ChildTgid\<close>:
  when the table watches the parent for \<open>PROC_EVENT_EXEC\<close>, through the parent's own entry
  \<open>m\<close> or, without one, through the entry \<open>m\<close> of \<open>-1\<close>, then after \<open>handleEvent\<close> the child
  has an entry \<open>c\<close> whose flags include all flags of \<open>m\<close>, the child is watched for
  \<open>PROC_EVENT_EXEC\<close>, and an Exec event for the child handled next is sent on \<open>w.Exec\<close>.
  (With \<open>Watch\<close> as the spec describes it.)
\<close>

theorem fork_follow:
  assumes r1: "binary_Read size_cnMsg (decode_cnMsg byteOrder) data zero_cnMsg = (e1, msg, buf1)"
    and r2: "binary_Read size_procEventHeader (decode_procEventHeader byteOrder) buf1
           zero_procEventHeader = (e2, hdr, buf2)"
    and what: "What hdr = PROC_EVENT_FORK"
    and r3: "binary_Read size_forkProcEvent (decode_forkProcEvent byteOrder) buf2
           zero_forkProcEvent = (e3, event, buf3)"
    and watching: "isWatching w (uint (ParentTgid event)) PROC_EVENT_EXEC"
    and x1: "binary_Read size_cnMsg (decode_cnMsg byteOrder) data' zero_cnMsg = (e1', msg', buf1')"
    and x2: "binary_Read size_procEventHeader (decode_procEventHeader byteOrder) buf1'
           zero_procEventHeader = (e2', hdr', buf2')"
    and what': "What hdr' = PROC_EVENT_EXEC"
    and x3: "binary_Read size_execProcEvent (decode_execProcEvent byteOrder) buf2'
           zero_execProcEvent = (e3', event', buf3')"
    and same: "execProcEvent.ProcessTgid event' = ChildTgid event"
  shows "\<exists>w' m c. handleEvent byteOrder w data = Inr w' \<and>
           (watches w (uint (ParentTgid event)) = Some m \<or>
            watches w (uint (ParentTgid event)) = None \<and> watches w (- 1) = Some m) \<and>
           flags m AND PROC_EVENT_EXEC = PROC_EVENT_EXEC \<and>
           watches w' (uint (ChildTgid event)) = Some c \<and>
           flags c AND flags m = flags m \<and>
           isWatching w' (uint (ChildTgid event)) PROC_EVENT_EXEC \<and>
           handleEvent byteOrder w' data' =
             Inr (w'\<lparr>Exec := Exec w' @ [ProcEventExec (uint (ChildTgid event))]\<rparr>)"
proof -
  let ?ppid = "uint (ParentTgid event)" and ?pid = "uint (ChildTgid event)"
  from watching obtain m where
    m: "watches w ?ppid = Some m \<or> watches w ?ppid = None \<and> watches w (- 1) = Some m"
    and me: "flags m AND PROC_EVENT_EXEC = PROC_EVENT_EXEC"
    by (auto simp add: isWatching_def split: option.splits)
  define w1 where "w1 = Watch w ?pid (flags m)"
  define w' where "w' = (if isWatching w1 ?ppid PROC_EVENT_FORK
              then w1\<lparr>Fork := Fork w1 @ [ProcEventFork ?ppid ?pid]\<rparr> else w1)"
  from m watching have res: "handleEvent byteOrder w data = Inr w'"
    unfolding handleEvent_fork [OF r1 r2 what r3] w'_def w1_def by (auto simp add: Let_def)
  have tab: "watches w' = watches w1" by (simp add: w'_def)
  from Watch_entry [of w ?pid "flags m"] obtain c where
    c: "watches w1 ?pid = Some c" and cm: "flags c AND flags m = flags m"
    unfolding w1_def by blast
  from mask_subset_trans [OF cm me] c tab
  have iw: "isWatching w' ?pid PROC_EVENT_EXEC"
    by (simp add: isWatching_def)
  from iw same have "handleEvent byteOrder w' data' =
      Inr (w'\<lparr>Exec := Exec w' @ [ProcEventExec ?pid]\<rparr>)"
    unfolding handleEvent_exec [OF x1 x2 what' x3] by (simp add: Let_def)
  note ex = this
  show ?thesis
  proof (intro exI conjI)
    show "handleEvent byteOrder w data = Inr w'" by (rule res)
    show "watches w ?ppid = Some m \<or> watches w ?ppid = None \<and> watches w (- 1) = Some m"
      by (rule m)
    show "flags m AND PROC_EVENT_EXEC = PROC_EVENT_EXEC" by (rule me)
    show "watches w' ?pid = Some c" using c tab by simp
    show "flags c AND flags m = flags m" by (rule cm)
    show "isWatching w' ?pid PROC_EVENT_EXEC" by (rule iw)
    show "handleEvent byteOrder w' data' = Inr (w'\<lparr>Exec := Exec w' @ [ProcEventExec ?pid]\<rparr>)"
      by (rule ex)
  qed
qed

text \<open>The theorem at a Fork event of parent 100 and child 101, the parent watched for
  \<open>PROC_EVENT_EXEC\<close>, followed by an Exec event of 101.\<close>

theorem fork_follow_witness:
  "isWatching
     \<lparr>watches = [100 \<mapsto> \<lparr>flags = PROC_EVENT_EXEC\<rparr>],
      Fork = [], Exec = [], Exit = [], Uid = [], Sid = [], Error = []\<rparr> 100 PROC_EVENT_EXEC \<and>
   (\<exists>w' c. handleEvent LittleEndian
        \<lparr>watches = [100 \<mapsto> \<lparr>flags = PROC_EVENT_EXEC\<rparr>],
         Fork = [], Exec = [], Exit = [], Uid = [], Sid = [], Error = []\<rparr>
        [0,0,0,0, 0,0,0,0, 0,0,0,0, 0,0,0,0, 0,0, 0,0,
         1,0,0,0, 0,0,0,0, 0,0,0,0,0,0,0,0,
         100,0,0,0, 100,0,0,0, 101,0,0,0, 101,0,0,0] = Inr w' \<and>
      watches w' 101 = Some c \<and> flags c AND PROC_EVENT_EXEC = PROC_EVENT_EXEC \<and>
      isWatching w' 101 PROC_EVENT_EXEC \<and>
      handleEvent LittleEndian w'
        [0,0,0,0, 0,0,0,0, 0,0,0,0, 0,0,0,0, 0,0, 0,0,
         2,0,0,0, 0,0,0,0, 0,0,0,0,0,0,0,0,
         101,0,0,0, 101,0,0,0] = Inr (w'\<lparr>Exec := Exec w' @ [ProcEventExec 101]\<rparr>))"
proof -
  let ?w = "\<lparr>watches = [100 \<mapsto> \<lparr>flags = PROC_EVENT_EXEC\<rparr>],
      Fork = [], Exec = [], Exit = [], Uid = [], Sid = [], Error = []\<rparr>"
  let ?fork = "[0,0,0,0, 0,0,0,0, 0,0,0,0, 0,0,0,0, 0,0, 0,0,
         1,0,0,0, 0,0,0,0, 0,0,0,0,0,0,0,0,
         100,0,0,0, 100,0,0,0, 101,0,0,0, 101,0,0,0] :: byte list"
  let ?exec = "[0,0,0,0, 0,0,0,0, 0,0,0,0, 0,0,0,0, 0,0, 0,0,
         2,0,0,0, 0,0,0,0, 0,0,0,0,0,0,0,0,
         101,0,0,0, 101,0,0,0] :: byte list"
  let ?event = "\<lparr>ParentPid = 100, ParentTgid = 100, ChildPid = 101, ChildTgid = 101\<rparr>"
  have r1: "binary_Read size_cnMsg (decode_cnMsg LittleEndian) ?fork zero_cnMsg =
      (None, zero_cnMsg, drop 20 ?fork)"
    by (simp add: decode_simps zero_cnMsg_def)
  have r2: "binary_Read size_procEventHeader (decode_procEventHeader LittleEndian) (drop 20 ?fork)
      zero_procEventHeader = (None, \<lparr>What = PROC_EVENT_FORK, Cpu = 0, Timestamp = 0\<rparr>, drop 36 ?fork)"
    by (simp add: decode_simps PROC_EVENT_defs)
  have r3: "binary_Read size_forkProcEvent (decode_forkProcEvent LittleEndian) (drop 36 ?fork)
      zero_forkProcEvent = (None, ?event, [])"
    by (simp add: decode_simps)
  have x1: "binary_Read size_cnMsg (decode_cnMsg LittleEndian) ?exec zero_cnMsg =
      (None, zero_cnMsg, drop 20 ?exec)"
    by (simp add: decode_simps zero_cnMsg_def)
  have x2: "binary_Read size_procEventHeader (decode_procEventHeader LittleEndian) (drop 20 ?exec)
      zero_procEventHeader = (None, \<lparr>What = PROC_EVENT_EXEC, Cpu = 0, Timestamp = 0\<rparr>, drop 36 ?exec)"
    by (simp add: decode_simps PROC_EVENT_defs)
  have x3: "binary_Read size_execProcEvent (decode_execProcEvent LittleEndian) (drop 36 ?exec)
      zero_execProcEvent = (None, \<lparr>execProcEvent.ProcessPid = 101, execProcEvent.ProcessTgid = 101\<rparr>, [])"
    by (simp add: decode_simps)
  have watching: "isWatching ?w (uint (ParentTgid ?event)) PROC_EVENT_EXEC"
    by (simp add: isWatching_def)
  from fork_follow [OF r1 r2 _ r3 watching x1 x2 _ x3] watching
  show ?thesis by simp
qed

text \<open>
  Claim C2 (exit cleans up), as the code has it. For a pid watched for \<open>PROC_EVENT_EXIT\<close>,
  an Exit event for it removes the pid's own entry and is sent on \<open>w.Exit\<close>. Afterwards
  \<open>isWatching\<close> for that pid is the mask test of the entry of \<open>-1\<close>: it is false for every
  kind when there is no such entry, and true for the kinds in its mask when there is one.
  (With \<open>RemoveWatch\<close> as the spec describes it.)
\<close>

theorem exit_removes_explicit_entry:
  assumes r1: "binary_Read size_cnMsg (decode_cnMsg byteOrder) data zero_cnMsg = (e1, msg, buf1)"
    and r2: "binary_Read size_procEventHeader (decode_procEventHeader byteOrder) buf1
           zero_procEventHeader = (e2, hdr, buf2)"
    and what: "What hdr = PROC_EVENT_EXIT"
    and r3: "binary_Read size_exitProcEvent (decode_exitProcEvent byteOrder) buf2
           zero_exitProcEvent = (e3, event, buf3)"
    and watching: "isWatching w (uint (exitProcEvent.ProcessTgid event)) PROC_EVENT_EXIT"
  shows "\<exists>w'. handleEvent byteOrder w data = Inr w' \<and>
           watches w' (uint (exitProcEvent.ProcessTgid event)) = None \<and>
           Exit w' = Exit w @ [ProcEventExit (uint (exitProcEvent.ProcessTgid event))] \<and>
           (\<forall>kind. isWatching w' (uint (exitProcEvent.ProcessTgid event)) kind \<longleftrightarrow>
              (\<exists>wild. watches w (- 1) = Some wild \<and> flags wild AND kind = kind)) \<and>
           (watches w (- 1) = None \<longrightarrow>
              (\<forall>kind. \<not> isWatching w' (uint (exitProcEvent.ProcessTgid event)) kind))"
proof -
  let ?pid = "uint (exitProcEvent.ProcessTgid event)"
  have ne: "?pid \<noteq> - 1"
    using uint_ge_0 [of "exitProcEvent.ProcessTgid event"] by linarith
  define w' where "w' = (RemoveWatch w ?pid)\<lparr>Exit := Exit w @ [ProcEventExit ?pid]\<rparr>"
  from watching have res: "handleEvent byteOrder w data = Inr w'"
    unfolding handleEvent_exit [OF r1 r2 what r3] w'_def by (simp add: Let_def)
  have gone: "watches w' ?pid = None"
    by (simp add: w'_def RemoveWatch_def)
  from ne have wild: "watches w' (- 1) = watches w (- 1)"
    by (simp add: w'_def RemoveWatch_def)
  have iw: "isWatching w' ?pid kind \<longleftrightarrow>
      (\<exists>wild. watches w (- 1) = Some wild \<and> flags wild AND kind = kind)" for kind
    using gone wild by (cases "watches w (- 1)") (simp_all add: isWatching_def)
  show ?thesis
  proof (intro exI conjI allI impI)
    show "handleEvent byteOrder w data = Inr w'" by (rule res)
    show "watches w' ?pid = None" by (rule gone)
    show "Exit w' = Exit w @ [ProcEventExit ?pid]" by (simp add: w'_def RemoveWatch_def)
    show "isWatching w' ?pid kind \<longleftrightarrow>
      (\<exists>wild. watches w (- 1) = Some wild \<and> flags wild AND kind = kind)" for kind
      by (rule iw)
    show "\<not> isWatching w' ?pid kind" if "watches w (- 1) = None" for kind
      using that by (simp add: iw)
  qed
qed

text \<open>The theorem at an Exit event of pid 100, watched by its own entry, with no entry
  of \<open>-1\<close>.\<close>

theorem exit_removes_explicit_entry_witness:
  "isWatching
     \<lparr>watches = [100 \<mapsto> \<lparr>flags = PROC_EVENT_EXEC OR PROC_EVENT_EXIT\<rparr>],
      Fork = [], Exec = [], Exit = [], Uid = [], Sid = [], Error = []\<rparr> 100 PROC_EVENT_EXIT \<and>
   (\<exists>w'. handleEvent LittleEndian
        \<lparr>watches = [100 \<mapsto> \<lparr>flags = PROC_EVENT_EXEC OR PROC_EVENT_EXIT\<rparr>],
         Fork = [], Exec = [], Exit = [], Uid = [], Sid = [], Error = []\<rparr>
        [0,0,0,0, 0,0,0,0, 0,0,0,0, 0,0,0,0, 0,0, 0,0,
         0,0,0,0x80, 0,0,0,0, 0,0,0,0,0,0,0,0,
         100,0,0,0, 100,0,0,0, 0,0,0,0, 17,0,0,0] = Inr w' \<and>
      watches w' 100 = None \<and> Exit w' = [ProcEventExit 100] \<and>
      (\<forall>kind. \<not> isWatching w' 100 kind))"
proof -
  let ?w = "\<lparr>watches = [100 \<mapsto> \<lparr>flags = PROC_EVENT_EXEC OR PROC_EVENT_EXIT\<rparr>],
      Fork = [], Exec = [], Exit = [], Uid = [], Sid = [], Error = []\<rparr>"
  let ?exit = "[0,0,0,0, 0,0,0,0, 0,0,0,0, 0,0,0,0, 0,0, 0,0,
         0,0,0,0x80, 0,0,0,0, 0,0,0,0,0,0,0,0,
         100,0,0,0, 100,0,0,0, 0,0,0,0, 17,0,0,0] :: byte list"
  let ?event = "\<lparr>exitProcEvent.ProcessPid = 100, exitProcEvent.ProcessTgid = 100,
      ExitCode = 0, ExitSignal = 17\<rparr>"
  have r1: "binary_Read size_cnMsg (decode_cnMsg LittleEndian) ?exit zero_cnMsg =
      (None, zero_cnMsg, drop 20 ?exit)"
    by (simp add: decode_simps zero_cnMsg_def)
  have r2: "binary_Read size_procEventHeader (decode_procEventHeader LittleEndian) (drop 20 ?exit)
      zero_procEventHeader = (None, \<lparr>What = PROC_EVENT_EXIT, Cpu = 0, Timestamp = 0\<rparr>, drop 36 ?exit)"
    by (simp add: decode_simps PROC_EVENT_defs)
  have r3: "binary_Read size_exitProcEvent (decode_exitProcEvent LittleEndian) (drop 36 ?exit)
      zero_exitProcEvent = (None, ?event, [])"
    by (simp add: decode_simps)
  have watching: "isWatching ?w (uint (exitProcEvent.ProcessTgid ?event)) PROC_EVENT_EXIT"
    by (simp add: isWatching_def PROC_EVENT_defs)
  from exit_removes_explicit_entry [OF r1 r2 _ r3 watching] watching
  show ?thesis by simp
qed

text \<open>
  Claim C2 as stated fails when there is an entry of \<open>-1\<close>: pid 100 is watched for
  \<open>PROC_EVENT_EXIT\<close> by its own entry, the Exit event removes that entry, and
  \<open>isWatching\<close> for pid 100 and \<open>PROC_EVENT_EXIT\<close> is still true, through the entry of \<open>-1\<close>.
\<close>

theorem exit_wildcard_counterexample:
  "isWatching
     \<lparr>watches = [100 \<mapsto> \<lparr>flags = PROC_EVENT_EXIT\<rparr>, - 1 \<mapsto> \<lparr>flags = PROC_EVENT_EXIT\<rparr>],
      Fork = [], Exec = [], Exit = [], Uid = [], Sid = [], Error = []\<rparr> 100 PROC_EVENT_EXIT \<and>
   handleEvent LittleEndian
     \<lparr>watches = [100 \<mapsto> \<lparr>flags = PROC_EVENT_EXIT\<rparr>, - 1 \<mapsto> \<lparr>flags = PROC_EVENT_EXIT\<rparr>],
      Fork = [], Exec = [], Exit = [], Uid = [], Sid = [], Error = []\<rparr>
     [0,0,0,0, 0,0,0,0, 0,0,0,0, 0,0,0,0, 0,0, 0,0,
      0,0,0,0x80, 0,0,0,0, 0,0,0,0,0,0,0,0,
      100,0,0,0, 100,0,0,0, 0,0,0,0, 17,0,0,0] =
   Inr \<lparr>watches = [- 1 \<mapsto> \<lparr>flags = PROC_EVENT_EXIT\<rparr>],
        Fork = [], Exec = [], Exit = [ProcEventExit 100], Uid = [], Sid = [], Error = []\<rparr> \<and>
   isWatching
     \<lparr>watches = [- 1 \<mapsto> \<lparr>flags = PROC_EVENT_EXIT\<rparr>],
      Fork = [], Exec = [], Exit = [ProcEventExit 100], Uid = [], Sid = [], Error = []\<rparr>
     100 PROC_EVENT_EXIT"
  by (simp add: handleEvent_eval fun_upd_twist)

text \<open>
  Claim C3 (the pid is the thread-group id), at a Sid event of thread 7 in process 5.
  The Fork, Exec and Exit cases take \<open>ParentTgid\<close>, \<open>ChildTgid\<close> and \<open>ProcessTgid\<close>; the
  Uid/Gid and Sid cases take \<open>ProcessPid\<close>. With process 5 watched for \<open>PROC_EVENT_SID\<close>
  the event is dropped; with 7 watched it is sent on \<open>w.Sid\<close> carrying 7, the thread's pid.
\<close>

theorem sid_filters_on_thread_pid:
  "handleEvent LittleEndian
     \<lparr>watches = [5 \<mapsto> \<lparr>flags = PROC_EVENT_SID\<rparr>],
      Fork = [], Exec = [], Exit = [], Uid = [], Sid = [], Error = []\<rparr>
     [0,0,0,0, 0,0,0,0, 0,0,0,0, 0,0,0,0, 0,0, 0,0,
      0x80,0,0,0, 0,0,0,0, 0,0,0,0,0,0,0,0,
      7,0,0,0, 5,0,0,0] =
   Inr \<lparr>watches = [5 \<mapsto> \<lparr>flags = PROC_EVENT_SID\<rparr>],
        Fork = [], Exec = [], Exit = [], Uid = [], Sid = [], Error = []\<rparr> \<and>
   handleEvent LittleEndian
     \<lparr>watches = [7 \<mapsto> \<lparr>flags = PROC_EVENT_SID\<rparr>],
      Fork = [], Exec = [], Exit = [], Uid = [], Sid = [], Error = []\<rparr>
     [0,0,0,0, 0,0,0,0, 0,0,0,0, 0,0,0,0, 0,0, 0,0,
      0x80,0,0,0, 0,0,0,0, 0,0,0,0,0,0,0,0,
      7,0,0,0, 5,0,0,0] =
   Inr \<lparr>watches = Map.empty,
        Fork = [], Exec = [], Exit = [], Uid = [], Sid = [ProcEventExit 7], Error = []\<rparr>"
  by (simp add: handleEvent_eval)

text \<open>
  Claim C4, as the code has it. A datagram shorter than the netlink header makes the
  read loop send \<open>EINVAL\<close> on \<open>w.Error\<close> and drop it. A message too short for the
  connector header and the event header is dropped by \<open>handleEvent\<close> with no event sent
  and the table unchanged, and \<open>handleEvent\<close> sends nothing on \<open>w.Error\<close> for any message at
  all.
\<close>

theorem undecodable_header_discarded_silently:
  "(int (length b) < int NLMSG_HDRLEN \<longrightarrow>
      readEvents byteOrder w [RecvOk b] = Inr (w\<lparr>Error := Error w @ [EINVAL]\<rparr>)) \<and>
   (length data < size_cnMsg + size_procEventHeader \<longrightarrow> handleEvent byteOrder w data = Inr w) \<and>
   (\<forall>w'. handleEvent byteOrder w data = Inr w' \<longrightarrow> Error w' = Error w)"
  using handleEvent_short [of data byteOrder w] handleEvent_Error [of byteOrder w data]
  by simp

text \<open>The theorem at a datagram of three bytes and at a message of 24 bytes: the
  connector header and the first four bytes of the event header.\<close>

theorem undecodable_header_discarded_silently_witness:
  "int (length [1, 2, 3 :: byte]) < int NLMSG_HDRLEN \<and>
   readEvents LittleEndian
     \<lparr>watches = [- 1 \<mapsto> \<lparr>flags = PROC_EVENT_ALL\<rparr>],
      Fork = [], Exec = [], Exit = [], Uid = [], Sid = [], Error = []\<rparr>
     [RecvOk [1, 2, 3]] =
   Inr \<lparr>watches = [- 1 \<mapsto> \<lparr>flags = PROC_EVENT_ALL\<rparr>],
        Fork = [], Exec = [], Exit = [], Uid = [], Sid = [], Error = [EINVAL]\<rparr> \<and>
   length [0,0,0,0, 0,0,0,0, 0,0,0,0, 0,0,0,0, 0,0, 0,0, 1,0,0,0 :: byte]
     < size_cnMsg + size_procEventHeader \<and>
   handleEvent LittleEndian
     \<lparr>watches = [- 1 \<mapsto> \<lparr>flags = PROC_EVENT_ALL\<rparr>],
      Fork = [], Exec = [], Exit = [], Uid = [], Sid = [], Error = []\<rparr>
     [0,0,0,0, 0,0,0,0, 0,0,0,0, 0,0,0,0, 0,0, 0,0, 1,0,0,0] =
   Inr \<lparr>watches = [- 1 \<mapsto> \<lparr>flags = PROC_EVENT_ALL\<rparr>],
        Fork = [], Exec = [], Exit = [], Uid = [], Sid = [], Error = []\<rparr>"
proof -
  let ?w = "\<lparr>watches = [- 1 \<mapsto> \<lparr>flags = PROC_EVENT_ALL\<rparr>],
      Fork = [], Exec = [], Exit = [], Uid = [], Sid = [], Error = []\<rparr>"
  let ?data = "[0,0,0,0, 0,0,0,0, 0,0,0,0, 0,0,0,0, 0,0, 0,0, 1,0,0,0] :: byte list"
  have short: "int (length [1, 2, 3 :: byte]) < int NLMSG_HDRLEN"
    by (simp add: NLMSG_HDRLEN_def)
  have len: "length ?data < size_cnMsg + size_procEventHeader"
    by (simp add: size_defs)
  from undecodable_header_discarded_silently [of "[1, 2, 3]" LittleEndian ?w ?data] short len
  have "readEvents LittleEndian ?w [RecvOk [1, 2, 3]] = Inr (?w\<lparr>Error := Error ?w @ [EINVAL]\<rparr>)"
    and "handleEvent LittleEndian ?w ?data = Inr ?w"
    by blast+
  with short len show ?thesis by simp
qed

text \<open>
  Claim C4 as stated fails at a message that ends inside the event header, which is
  dropped with nothing sent on \<open>w.Error\<close>, and at a Fork message that ends after the
  event header: reading the payload returns \<open>io.EOF\<close>, nothing is sent on \<open>w.Error\<close>, and
  the zero-valued payload is handled as a fork of pid 0 by pid 0, which the entry of
  \<open>-1\<close> makes watched: pid 0 gets an entry and a Fork event is sent.
\<close>

theorem truncated_fork_counterexample:
  "handleEvent LittleEndian
     \<lparr>watches = [- 1 \<mapsto> \<lparr>flags = PROC_EVENT_FORK OR PROC_EVENT_EXEC\<rparr>],
      Fork = [], Exec = [], Exit = [], Uid = [], Sid = [], Error = []\<rparr>
     [0,0,0,0, 0,0,0,0, 0,0,0,0, 0,0,0,0, 0,0, 0,0,
      1,0,0,0] =
   Inr \<lparr>watches = [- 1 \<mapsto> \<lparr>flags = PROC_EVENT_FORK OR PROC_EVENT_EXEC\<rparr>],
        Fork = [], Exec = [], Exit = [], Uid = [], Sid = [], Error = []\<rparr> \<and>
   binary_Read size_forkProcEvent (decode_forkProcEvent LittleEndian) [] zero_forkProcEvent =
     (Some EOF, zero_forkProcEvent, []) \<and>
   handleEvent LittleEndian
     \<lparr>watches = [- 1 \<mapsto> \<lparr>flags = PROC_EVENT_FORK OR PROC_EVENT_EXEC\<rparr>],
      Fork = [], Exec = [], Exit = [], Uid = [], Sid = [], Error = []\<rparr>
     [0,0,0,0, 0,0,0,0, 0,0,0,0, 0,0,0,0, 0,0, 0,0,
      1,0,0,0, 0,0,0,0, 0,0,0,0,0,0,0,0] =
   Inr \<lparr>watches = [- 1 \<mapsto> \<lparr>flags = PROC_EVENT_FORK OR PROC_EVENT_EXEC\<rparr>,
                    0 \<mapsto> \<lparr>flags = PROC_EVENT_FORK OR PROC_EVENT_EXEC\<rparr>],
        Fork = [ProcEventFork 0 0], Exec = [], Exit = [], Uid = [], Sid = [], Error = []\<rparr>"
  by (simp add: handleEvent_eval)

text \<open>
  Claim C5 (\<open>isWatching\<close>). The result is true iff the entry of \<open>pid\<close> has all bits of
  \<open>kind\<close> in its flags or, only when \<open>pid\<close> has no entry, the entry of \<open>-1\<close> has them; and
  for a \<open>pid\<close> with an entry the result is the mask test of that entry whatever the entry
  of \<open>-1\<close> is.
\<close>

theorem isWatching_explicit_shadows_wildcard:
  "(isWatching w pid kind \<longleftrightarrow>
      (\<exists>watch. watches w pid = Some watch \<and> flags watch AND kind = kind) \<or>
      (watches w pid = None \<and>
       (\<exists>watch. watches w (- 1) = Some watch \<and> flags watch AND kind = kind))) \<and>
   (\<forall>watch wild. pid \<noteq> - 1 \<longrightarrow> watches w pid = Some watch \<longrightarrow>
      isWatching (w\<lparr>watches := (watches w)(- 1 := wild)\<rparr>) pid kind =
        (flags watch AND kind = kind))"
  by (auto simp add: isWatching_def split: option.splits)

text \<open>The theorem at a table where pid 100 has the entry \<open>PROC_EVENT_EXEC\<close> and \<open>-1\<close> the
  entry \<open>PROC_EVENT_ALL\<close>: pid 100 is not watched for \<open>PROC_EVENT_EXIT\<close>, pid 101 is.\<close>

theorem isWatching_explicit_shadows_wildcard_witness:
  "\<not> isWatching
       \<lparr>watches = [100 \<mapsto> \<lparr>flags = PROC_EVENT_EXEC\<rparr>, - 1 \<mapsto> \<lparr>flags = PROC_EVENT_ALL\<rparr>],
        Fork = [], Exec = [], Exit = [], Uid = [], Sid = [], Error = []\<rparr>
       100 PROC_EVENT_EXIT \<and>
   isWatching
       \<lparr>watches = [100 \<mapsto> \<lparr>flags = PROC_EVENT_EXEC\<rparr>, - 1 \<mapsto> \<lparr>flags = PROC_EVENT_ALL\<rparr>],
        Fork = [], Exec = [], Exit = [], Uid = [], Sid = [], Error = []\<rparr>
       101 PROC_EVENT_EXIT"
  using isWatching_explicit_shadows_wildcard
    [of "\<lparr>watches = [100 \<mapsto> \<lparr>flags = PROC_EVENT_EXEC\<rparr>, - 1 \<mapsto> \<lparr>flags = PROC_EVENT_ALL\<rparr>],
        Fork = [], Exec = [], Exit = [], Uid = [], Sid = [], Error = []\<rparr>" 100 PROC_EVENT_EXIT]
    isWatching_explicit_shadows_wildcard
    [of "\<lparr>watches = [100 \<mapsto> \<lparr>flags = PROC_EVENT_EXEC\<rparr>, - 1 \<mapsto> \<lparr>flags = PROC_EVENT_ALL\<rparr>],
        Fork = [], Exec = [], Exit = [], Uid = [], Sid = [], Error = []\<rparr>" 101 PROC_EVENT_EXIT]
  by (simp add: PROC_EVENT_defs PROC_EVENT_ALL_def)

text \<open>
  Claim C6 (Uid/Gid and Sid events remove the entry and send an event), at a Uid event
  of pid 100 with its full payload of 16 bytes, pid 100 being watched for
  \<open>PROC_EVENT_UID\<close>: \<open>binary.Read\<close> panics on the unexported field \<open>eId\<close> of
  \<open>idProcEvent\<close>, before the table is consulted; no entry is removed and no event sent.
\<close>

theorem uid_event_panics:
  "handleEvent LittleEndian
     \<lparr>watches = [100 \<mapsto> \<lparr>flags = PROC_EVENT_UID\<rparr>],
      Fork = [], Exec = [], Exit = [], Uid = [], Sid = [], Error = []\<rparr>
     [0,0,0,0, 0,0,0,0, 0,0,0,0, 0,0,0,0, 0,0, 0,0,
      4,0,0,0, 0,0,0,0, 0,0,0,0,0,0,0,0,
      100,0,0,0, 100,0,0,0, 0xE8,3,0,0, 0,0,0,0] = Inl PanicUnexportedField"
  by (simp add: handleEvent_eval)

text \<open>
  Claim C7 (a short datagram). When \<open>Recvfrom\<close> returns fewer than \<open>NLMSG_HDRLEN\<close> bytes,
  the loop sends \<open>EINVAL\<close> on \<open>w.Error\<close>, once, and goes on: what the loop does with the
  iterations that follow is what it does without the short datagram, panic included,
  but for that one \<open>EINVAL\<close> on \<open>w.Error\<close> before the errors sent later.
\<close>

theorem short_datagram_one_error:
  assumes "int (length b) < int NLMSG_HDRLEN"
  shows "readEvents byteOrder w [RecvOk b] = Inr (w\<lparr>Error := Error w @ [EINVAL]\<rparr>) \<and>
         readEvents byteOrder w (RecvOk b # its) =
           (case readEvents byteOrder w its of
              Inl p \<Rightarrow> Inl p
            | Inr w' \<Rightarrow> Inr (w'\<lparr>Error := Error w @ EINVAL # drop (length (Error w)) (Error w')\<rparr>))"
  using assms readEvents_Error_update [where byteOrder = byteOrder and w = w
      and E = "Error w @ [EINVAL]" and its = its]
  by (simp split: sum.splits)

text \<open>The theorem at a datagram of three bytes followed by a well-formed datagram with
  one Fork event of parent 100 and child 101.\<close>

theorem short_datagram_one_error_witness:
  "int (length [1, 2, 3 :: byte]) < int NLMSG_HDRLEN \<and>
   readEvents LittleEndian
     \<lparr>watches = [100 \<mapsto> \<lparr>flags = PROC_EVENT_FORK OR PROC_EVENT_EXEC\<rparr>],
      Fork = [], Exec = [], Exit = [], Uid = [], Sid = [], Error = []\<rparr>
     [RecvOk [1, 2, 3],
      RecvOk [68,0,0,0, 3,0, 0,0, 0,0,0,0, 0,0,0,0,
              0,0,0,0, 0,0,0,0, 0,0,0,0, 0,0,0,0, 0,0, 0,0,
              1,0,0,0, 0,0,0,0, 0,0,0,0,0,0,0,0,
              100,0,0,0, 100,0,0,0, 101,0,0,0, 101,0,0,0]] =
   Inr \<lparr>watches = [100 \<mapsto> \<lparr>flags = PROC_EVENT_FORK OR PROC_EVENT_EXEC\<rparr>,
                    101 \<mapsto> \<lparr>flags = PROC_EVENT_FORK OR PROC_EVENT_EXEC\<rparr>],
        Fork = [ProcEventFork 100 101], Exec = [], Exit = [], Uid = [], Sid = [],
        Error = [EINVAL]\<rparr>"
proof -
  let ?w = "\<lparr>watches = [100 \<mapsto> \<lparr>flags = PROC_EVENT_FORK OR PROC_EVENT_EXEC\<rparr>],
      Fork = [], Exec = [], Exit = [], Uid = [], Sid = [], Error = []\<rparr>"
  let ?d = "[68,0,0,0, 3,0, 0,0, 0,0,0,0, 0,0,0,0,
              0,0,0,0, 0,0,0,0, 0,0,0,0, 0,0,0,0, 0,0, 0,0,
              1,0,0,0, 0,0,0,0, 0,0,0,0,0,0,0,0,
              100,0,0,0, 100,0,0,0, 101,0,0,0, 101,0,0,0] :: byte list"
  have short: "int (length [1, 2, 3 :: byte]) < int NLMSG_HDRLEN"
    by (simp add: NLMSG_HDRLEN_def)
  have parse: "ParseNetlinkMessage LittleEndian ?d =
      Inr [\<lparr>Header = \<lparr>NlMsghdr.Len = 68, Type = NLMSG_DONE, NlMsghdr.Flags = 0,
                        NlMsghdr.Seq = 0, NlMsghdr.Pid = 0\<rparr>,
            Data = drop 16 ?d\<rparr>]"
    by (simp add: ParseNetlinkMessage.simps [of _ "_ # _"] ParseNetlinkMessage.simps [of _ "[]"]
        decode_NlMsghdr_def nlmAlignOf_def NLMSG_HDRLEN_def
        NLMSG_DONE_def Uint16_def Uint32_def order_word_def Let_def)
  have rest: "readEvents LittleEndian ?w [RecvOk ?d] =
      Inr \<lparr>watches = [100 \<mapsto> \<lparr>flags = PROC_EVENT_FORK OR PROC_EVENT_EXEC\<rparr>,
                    101 \<mapsto> \<lparr>flags = PROC_EVENT_FORK OR PROC_EVENT_EXEC\<rparr>],
        Fork = [ProcEventFork 100 101], Exec = [], Exit = [], Uid = [], Sid = [],
        Error = []\<rparr>"
    by (simp add: parse NLMSG_HDRLEN_def handleEvent_eval)
  have step: "readEvents LittleEndian ?w [RecvOk [1, 2, 3], RecvOk ?d] =
      (case readEvents LittleEndian ?w [RecvOk ?d] of
         Inl p \<Rightarrow> Inl p
       | Inr w' \<Rightarrow> Inr (w'\<lparr>Error := Error ?w @ EINVAL # drop (length (Error ?w)) (Error w')\<rparr>))"
    using short_datagram_one_error [OF short, of LittleEndian ?w "[RecvOk ?d]"]
    by (rule conjunct2)
  show ?thesis
    unfolding step rest using short by simp
qed

text \<open>
  Claim C8 (unrecognized kind). When the kind of the decoded event header is none of
  Fork, Exec, Exit, Uid, Gid and Sid, \<open>handleEvent\<close> returns the watcher as it was: no
  event on any channel, no error, no change of the table.
\<close>

theorem unknown_kind_ignored:
  assumes r1: "binary_Read size_cnMsg (decode_cnMsg byteOrder) data zero_cnMsg = (e1, msg, buf1)"
    and r2: "binary_Read size_procEventHeader (decode_procEventHeader byteOrder) buf1
           zero_procEventHeader = (e2, hdr, buf2)"
    and what: "What hdr \<notin> {PROC_EVENT_FORK, PROC_EVENT_EXEC, PROC_EVENT_EXIT, PROC_EVENT_UID,
           PROC_EVENT_GID, PROC_EVENT_SID}"
  shows "handleEvent byteOrder w data = Inr w"
  using handleEvent_other [OF r1 r2 what] .

text \<open>The theorem at the kinds 0 and \<open>PROC_EVENT_COMM\<close>, with every process watched for
  \<open>PROC_EVENT_ALL\<close>.\<close>

theorem unknown_kind_ignored_witness:
  "handleEvent LittleEndian
     \<lparr>watches = [- 1 \<mapsto> \<lparr>flags = PROC_EVENT_ALL\<rparr>],
      Fork = [], Exec = [], Exit = [], Uid = [], Sid = [], Error = []\<rparr>
     [0,0,0,0, 0,0,0,0, 0,0,0,0, 0,0,0,0, 0,0, 0,0,
      0,0,0,0, 0,0,0,0, 0,0,0,0,0,0,0,0,
      100,0,0,0, 100,0,0,0] =
   Inr \<lparr>watches = [- 1 \<mapsto> \<lparr>flags = PROC_EVENT_ALL\<rparr>],
        Fork = [], Exec = [], Exit = [], Uid = [], Sid = [], Error = []\<rparr> \<and>
   handleEvent LittleEndian
     \<lparr>watches = [- 1 \<mapsto> \<lparr>flags = PROC_EVENT_ALL\<rparr>],
      Fork = [], Exec = [], Exit = [], Uid = [], Sid = [], Error = []\<rparr>
     [0,0,0,0, 0,0,0,0, 0,0,0,0, 0,0,0,0, 0,0, 0,0,
      0,2,0,0, 0,0,0,0, 0,0,0,0,0,0,0,0,
      100,0,0,0, 100,0,0,0] =
   Inr \<lparr>watches = [- 1 \<mapsto> \<lparr>flags = PROC_EVENT_ALL\<rparr>],
        Fork = [], Exec = [], Exit = [], Uid = [], Sid = [], Error = []\<rparr>"
proof -
  let ?w = "\<lparr>watches = [- 1 \<mapsto> \<lparr>flags = PROC_EVENT_ALL\<rparr>],
      Fork = [], Exec = [], Exit = [], Uid = [], Sid = [], Error = []\<rparr>"
  let ?zero = "[0,0,0,0, 0,0,0,0, 0,0,0,0, 0,0,0,0, 0,0, 0,0,
      0,0,0,0, 0,0,0,0, 0,0,0,0,0,0,0,0,
      100,0,0,0, 100,0,0,0] :: byte list"
  let ?comm = "[0,0,0,0, 0,0,0,0, 0,0,0,0, 0,0,0,0, 0,0, 0,0,
      0,2,0,0, 0,0,0,0, 0,0,0,0,0,0,0,0,
      100,0,0,0, 100,0,0,0] :: byte list"
  have r1: "binary_Read size_cnMsg (decode_cnMsg LittleEndian) ?zero zero_cnMsg =
      (None, zero_cnMsg, drop 20 ?zero)"
    by (simp add: decode_simps zero_cnMsg_def)
  have r2: "binary_Read size_procEventHeader (decode_procEventHeader LittleEndian) (drop 20 ?zero)
      zero_procEventHeader = (None, \<lparr>What = 0, Cpu = 0, Timestamp = 0\<rparr>, drop 36 ?zero)"
    by (simp add: decode_simps)
  have c1: "binary_Read size_cnMsg (decode_cnMsg LittleEndian) ?comm zero_cnMsg =
      (None, zero_cnMsg, drop 20 ?comm)"
    by (simp add: decode_simps zero_cnMsg_def)
  have c2: "binary_Read size_procEventHeader (decode_procEventHeader LittleEndian) (drop 20 ?comm)
      zero_procEventHeader = (None, \<lparr>What = PROC_EVENT_COMM, Cpu = 0, Timestamp = 0\<rparr>, drop 36 ?comm)"
    by (simp add: decode_simps PROC_EVENT_defs)
  from unknown_kind_ignored [OF r1 r2, of ?w] unknown_kind_ignored [OF c1 c2, of ?w]
  show ?thesis by (simp add: PROC_EVENT_defs)
qed

text \<open>
  Claim C9 (every access of the table is under the lock), at a Fork event of parent 100
  and child 101, the parent watched for \<open>PROC_EVENT_EXEC\<close>: after \<open>isWatching\<close> has
  returned and released the mutex, \<open>handleEvent\<close> reads \<open>w.watches[ppid]\<close> without
  holding it.
\<close>

theorem fork_follow_reads_table_unlocked:
  "handleEvent_ops LittleEndian
     \<lparr>watches = [100 \<mapsto> \<lparr>flags = PROC_EVENT_EXEC\<rparr>],
      Fork = [], Exec = [], Exit = [], Uid = [], Sid = [], Error = []\<rparr>
     [0,0,0,0, 0,0,0,0, 0,0,0,0, 0,0,0,0, 0,0, 0,0,
      1,0,0,0, 0,0,0,0, 0,0,0,0,0,0,0,0,
      100,0,0,0, 100,0,0,0, 101,0,0,0, 101,0,0,0] =
   [Lock, Read 100, Unlock,
    Read 100,
    Lock, Read 101, Write 101, Unlock,
    Lock, Read 100, Unlock] \<and>
   \<not> guarded False
     (handleEvent_ops LittleEndian
       \<lparr>watches = [100 \<mapsto> \<lparr>flags = PROC_EVENT_EXEC\<rparr>],
        Fork = [], Exec = [], Exit = [], Uid = [], Sid = [], Error = []\<rparr>
       [0,0,0,0, 0,0,0,0, 0,0,0,0, 0,0,0,0, 0,0, 0,0,
        1,0,0,0, 0,0,0,0, 0,0,0,0,0,0,0,0,
        100,0,0,0, 100,0,0,0, 101,0,0,0, 101,0,0,0])"
  by (simp add: handleEvent_ops_def handleEvent_eval isWatching_ops_def Watch_ops_def)

text \<open>
  Claim C10 (Exec leaves the table alone). Handling an Exec event changes nothing but
  \<open>w.Exec\<close>, which gets the event when the pid is watched for \<open>PROC_EVENT_EXEC\<close>; the
  table, and so every result of \<open>isWatching\<close>, is as before.
\<close>

theorem exec_leaves_table_unchanged:
  assumes r1: "binary_Read size_cnMsg (decode_cnMsg byteOrder) data zero_cnMsg = (e1, msg, buf1)"
    and r2: "binary_Read size_procEventHeader (decode_procEventHeader byteOrder) buf1
           zero_procEventHeader = (e2, hdr, buf2)"
    and what: "What hdr = PROC_EVENT_EXEC"
    and r3: "binary_Read size_execProcEvent (decode_execProcEvent byteOrder) buf2
           zero_execProcEvent = (e3, event, buf3)"
  shows "\<exists>w'. handleEvent byteOrder w data = Inr w' \<and>
           w' = (if isWatching w (uint (execProcEvent.ProcessTgid event)) PROC_EVENT_EXEC
                 then w\<lparr>Exec := Exec w @ [ProcEventExec (uint (execProcEvent.ProcessTgid event))]\<rparr>
                 else w) \<and>
           watches w' = watches w \<and>
           (\<forall>pid kind. isWatching w' pid kind = isWatching w pid kind)"
  unfolding handleEvent_exec [OF r1 r2 what r3]
  by (simp add: Let_def isWatching_update)

text \<open>The theorem at an Exec event of pid 100, watched for \<open>PROC_EVENT_EXEC\<close>.\<close>

theorem exec_leaves_table_unchanged_witness:
  "handleEvent LittleEndian
     \<lparr>watches = [100 \<mapsto> \<lparr>flags = PROC_EVENT_EXEC OR PROC_EVENT_EXIT\<rparr>],
      Fork = [], Exec = [], Exit = [], Uid = [], Sid = [], Error = []\<rparr>
     [0,0,0,0, 0,0,0,0, 0,0,0,0, 0,0,0,0, 0,0, 0,0,
      2,0,0,0, 0,0,0,0, 0,0,0,0,0,0,0,0,
      100,0,0,0, 100,0,0,0] =
   Inr \<lparr>watches = [100 \<mapsto> \<lparr>flags = PROC_EVENT_EXEC OR PROC_EVENT_EXIT\<rparr>],
        Fork = [], Exec = [ProcEventExec 100], Exit = [], Uid = [], Sid = [], Error = []\<rparr>"
proof -
  let ?w = "\<lparr>watches = [100 \<mapsto> \<lparr>flags = PROC_EVENT_EXEC OR PROC_EVENT_EXIT\<rparr>],
      Fork = [], Exec = [], Exit = [], Uid = [], Sid = [], Error = []\<rparr>"
  let ?exec = "[0,0,0,0, 0,0,0,0, 0,0,0,0, 0,0,0,0, 0,0, 0,0,
      2,0,0,0, 0,0,0,0, 0,0,0,0,0,0,0,0,
      100,0,0,0, 100,0,0,0] :: byte list"
  have r1: "binary_Read size_cnMsg (decode_cnMsg LittleEndian) ?exec zero_cnMsg =
      (None, zero_cnMsg, drop 20 ?exec)"
    by (simp add: decode_simps zero_cnMsg_def)
  have r2: "binary_Read size_procEventHeader (decode_procEventHeader LittleEndian) (drop 20 ?exec)
      zero_procEventHeader = (None, \<lparr>What = PROC_EVENT_EXEC, Cpu = 0, Timestamp = 0\<rparr>, drop 36 ?exec)"
    by (simp add: decode_simps PROC_EVENT_defs)
  have r3: "binary_Read size_execProcEvent (decode_execProcEvent LittleEndian) (drop 36 ?exec)
      zero_execProcEvent =
      (None, \<lparr>execProcEvent.ProcessPid = 100, execProcEvent.ProcessTgid = 100\<rparr>, [])"
    by (simp add: decode_simps)
  from exec_leaves_table_unchanged [OF r1 r2 _ r3, of ?w]
  show ?thesis by (simp add: isWatching_def PROC_EVENT_defs)
qed

end
